theory Spec2Isabelle
  imports Complex_Main "HOL-Library.Sublist"
begin

section \<open>Strings, cell values and the external capabilities\<close>

text \<open>
  A Python \<open>str\<close> is a sequence of Unicode code points; names with accents or
  non-Latin scripts do not fit an 8-bit character, so a string is a list of code points.
  \<open>lit\<close> writes an ASCII literal of the source as such a list.
\<close>

type_synonym pystr = "nat list"

definition lit :: "string \<Rightarrow> pystr" where
  "lit s = map of_char s"

text \<open>
  The values a DataFrame cell can hold here: \<open>None\<close>, booleans, integers, floats
  (as exact reals), strings, and the list of floats that \<open>_preprocess\<close> stores in its
  scratch column.
\<close>

datatype cell =
    PyNone
  | PyBool bool
  | PyInt int
  | PyFloat real
  | PyStr pystr
  | PyList "real list"

text \<open>
  What the pipeline consumes from outside the repository, taken as parameters:
  \<open>str.lower\<close> of the Python runtime, \<open>unidecode.unidecode\<close>, the text Python prints
  for a float, and the loaded Keras model's \<open>predict\<close> followed by \<open>squeeze(axis=1)\<close>
  (\<open>None\<close> when the call raises).
\<close>

record ext =
  str_lower :: "pystr \<Rightarrow> pystr"
  unidecode :: "pystr \<Rightarrow> pystr"
  float_str :: "real \<Rightarrow> pystr"
  model_predict :: "cell list \<Rightarrow> real list option"

subsection \<open>\<open>str(x)\<close>\<close>

fun str_nat :: "nat \<Rightarrow> pystr" where
  "str_nat n = (if n < 10 then [48 + n] else str_nat (n div 10) @ [48 + n mod 10])"

declare str_nat.simps [simp del]

definition str_int :: "int \<Rightarrow> pystr" where
  "str_int i = (if i < 0 then 45 # str_nat (nat (- i)) else str_nat (nat i))"

fun join :: "pystr \<Rightarrow> pystr list \<Rightarrow> pystr" where
  "join sep [] = []"
| "join sep [s] = s"
| "join sep (s # t # ts) = s @ sep @ join sep (t # ts)"

fun py_str :: "ext \<Rightarrow> cell \<Rightarrow> pystr" where
  "py_str E PyNone = lit ''None''"
| "py_str E (PyBool b) = (if b then lit ''True'' else lit ''False'')"
| "py_str E (PyInt i) = str_int i"
| "py_str E (PyFloat x) = float_str E x"
| "py_str E (PyStr s) = s"
| "py_str E (PyList xs) = lit ''['' @ join (lit '', '') (map (float_str E) xs) @ lit '']''"

section \<open>The Normalizer/Encoder: \<open>_preprocess\<close>, per cell\<close>

text \<open>The character class \<open>[a-z0-9 ]\<close> of the regular expression.\<close>

definition name_char :: "nat \<Rightarrow> bool" where
  "name_char c \<longleftrightarrow> (97 \<le> c \<and> c \<le> 122) \<or> (48 \<le> c \<and> c \<le> 57) \<or> c = 32"

text \<open>
  \<open>re.sub(r"[^a-z0-9 ]+", repl, s)\<close>: scanning from the left, every maximal run of
  characters outside the class is one match of the greedy \<open>+\<close> and is replaced by
  \<open>repl\<close>; characters of the class are copied.
\<close>

function re_sub :: "pystr \<Rightarrow> pystr \<Rightarrow> pystr" where
  "re_sub repl [] = []"
| "re_sub repl (c # cs) =
     (if name_char c then c # re_sub repl cs
      else repl @ re_sub repl (dropWhile (\<lambda>d. \<not> name_char d) cs))"
  by pat_completeness auto
termination
  by (relation "measure (\<lambda>(repl, s). length s)")
     (auto simp: length_dropWhile_le less_Suc_eq_le)

text \<open>
  The lambda of \<open>_preprocess\<close>:
  \<open>re.sub(r"[^a-z0-9 ]+", "", unidecode.unidecode(str(x).lower()))\<close>.
\<close>

definition clean_name :: "ext \<Rightarrow> cell \<Rightarrow> pystr" where
  "clean_name E x = re_sub [] (unidecode E (str_lower E (py_str E x)))"

text \<open>\<open>(name + [' '] * name_length)[:name_length]\<close> with \<open>name_length = 50\<close>.\<close>

definition name_length :: nat where
  "name_length = 50"

definition pad_name :: "pystr \<Rightarrow> pystr" where
  "pad_name name = take name_length (name @ replicate name_length 32)"

text \<open>\<open>[max(0.0, ord(char) - 96.0) for char in name]\<close>.\<close>

definition encode_name :: "pystr \<Rightarrow> real list" where
  "encode_name name = map (\<lambda>char. max 0 (real char - 96)) name"

definition encode_cell :: "ext \<Rightarrow> cell \<Rightarrow> real list" where
  "encode_cell E x = encode_name (pad_name (clean_name E x))"

text \<open>
  The order of the normalization steps as the specification words it: transliterate,
  then lowercase, then filter. It is compared with \<open>clean_name\<close> below.
\<close>

definition canonical_spec :: "ext \<Rightarrow> pystr \<Rightarrow> pystr" where
  "canonical_spec E s = filter name_char (str_lower E (unidecode E s))"

section \<open>The Decision Pipeline\<close>

subsection \<open>Thresholding and rounding\<close>

text \<open>
  The two list comprehensions of \<open>_predict\<close> (and, with \<open>logit\<close> for \<open>prob\<close>, of the
  older \<open>__predict\<close>). Scores are exact reals.
\<close>

definition gender_labels :: "real list \<Rightarrow> pystr list" where
  "gender_labels predictions = map (\<lambda>prob. if prob > 0.5 then lit ''M'' else lit ''F'') predictions"

definition gender_probs :: "real list \<Rightarrow> real list" where
  "gender_probs predictions = map (\<lambda>prob. if prob > 0.5 then prob else 1.0 - prob) predictions"

text \<open>
  \<open>round(prob, 2)\<close>: rounding to the nearest multiple of \<open>10 ^ - ndigits\<close>, a tie going
  to the even neighbour, in exact arithmetic.
\<close>

definition round_half_even :: "real \<Rightarrow> int" where
  "round_half_even x =
     (let f = \<lfloor>x\<rfloor>; d = x - of_int f
      in if d < 1 / 2 then f else if 1 / 2 < d then f + 1 else if even f then f else f + 1)"

definition py_round :: "real \<Rightarrow> nat \<Rightarrow> real" where
  "py_round x ndigits = of_int (round_half_even (x * 10 ^ ndigits)) / 10 ^ ndigits"

definition gender_probability :: "real list \<Rightarrow> real list" where
  "gender_probability predictions = map (\<lambda>prob. py_round prob 2) (gender_probs predictions)"

subsection \<open>DataFrames and the objects they live in\<close>

text \<open>
  A DataFrame is its columns in order, each a name with the values of its rows in row
  order. DataFrames are mutable objects: the heap is the list of the objects allocated
  so far and a reference is an index into it.
\<close>

type_synonym frame = "(pystr \<times> cell list) list"

type_synonym heap = "frame list"

datatype error =
    NoNameColumn
  | ColumnNotFound pystr
  | KeyError pystr
  | NotInList
  | LengthMismatch
  | ClassifierError

definition columns :: "frame \<Rightarrow> pystr list" where
  "columns f = map fst f"

definition nrows :: "frame \<Rightarrow> nat" where
  "nrows f = (case f of [] \<Rightarrow> 0 | (k, vs) # _ \<Rightarrow> length vs)"

text \<open>
  \<open>df[name] = values\<close>: an existing column is overwritten where it stands, a new one is
  appended; values of the wrong length are refused.
\<close>

fun assign :: "pystr \<Rightarrow> cell list \<Rightarrow> frame \<Rightarrow> frame" where
  "assign name vals [] = [(name, vals)]"
| "assign name vals ((k, vs) # f) =
     (if k = name then (k, vals) # f else (k, vs) # assign name vals f)"

definition set_column :: "pystr \<Rightarrow> cell list \<Rightarrow> frame \<Rightarrow> error + frame" where
  "set_column name vals f =
     (if f \<noteq> [] \<and> length vals \<noteq> nrows f then Inl LengthMismatch
      else Inr (assign name vals f))"

text \<open>\<open>df.drop(labels, axis=1)\<close>: a label that is no column raises \<open>KeyError\<close>.\<close>

definition drop_columns :: "pystr list \<Rightarrow> frame \<Rightarrow> error + frame" where
  "drop_columns labels f =
     (case filter (\<lambda>l. l \<notin> set (columns f)) labels of
        [] \<Rightarrow> Inr (filter (\<lambda>(k, vs). k \<notin> set labels) f)
      | l # _ \<Rightarrow> Inl (KeyError l))"

text \<open>\<open>df.copy()\<close> allocates a new object with the same contents.\<close>

definition copy_frame :: "heap \<Rightarrow> nat \<Rightarrow> nat \<times> heap" where
  "copy_frame h df = (length h, h @ [h ! df])"

subsection \<open>\<open>_identify_column_name\<close>\<close>

definition name_patterns :: "pystr list" where
  "name_patterns =
     [lit ''name'', lit ''nombre'', lit ''first_name'', lit ''firstname'', lit ''primer_nombre'']"

text \<open>\<open>list.index\<close>; \<open>None\<close> where Python raises.\<close>

fun list_index :: "'a list \<Rightarrow> 'a \<Rightarrow> nat option" where
  "list_index [] x = None"
| "list_index (y # ys) x =
     (if y = x then Some 0 else map_option Suc (list_index ys x))"

fun match_patterns :: "pystr list \<Rightarrow> pystr list \<Rightarrow> pystr list \<Rightarrow> error + pystr" where
  "match_patterns cols normalized_columns [] = Inl NoNameColumn"
| "match_patterns cols normalized_columns (pattern # patterns) =
     (if pattern \<in> set normalized_columns
      then (case list_index normalized_columns pattern of
              None \<Rightarrow> Inl NotInList
            | Some index \<Rightarrow> Inr (cols ! index))
      else match_patterns cols normalized_columns patterns)"

definition identify_column_name :: "ext \<Rightarrow> pystr list \<Rightarrow> error + pystr" where
  "identify_column_name E cols = match_patterns cols (map (str_lower E) cols) name_patterns"


subsection \<open>\<open>_preprocess\<close>, \<open>_predict\<close> and \<open>genderize\<close>\<close>

definition clean_col :: pystr where
  "clean_col = lit ''clean_name_nlp''"

definition transform_col :: pystr where
  "transform_col = lit ''transform_name_nlp''"

definition predicted_col :: pystr where
  "predicted_col = lit ''gender_predicted''"

definition probability_col :: pystr where
  "probability_col = lit ''gender_probability''"

text \<open>
  Each function takes the heap and the reference of its DataFrame and returns the
  reference of its result, or the error it raised, with the heap as it then is.
  \<open>list(name)\<close> makes the list of the characters of a string, which a list of code
  points already is.
\<close>

definition preprocess :: "ext \<Rightarrow> heap \<Rightarrow> nat \<Rightarrow> pystr \<Rightarrow> (error + nat) \<times> heap" where
  "preprocess E h df name_column =
     (let (df_copy, h1) = copy_frame h df
      in case map_of (h1 ! df_copy) name_column of
           None \<Rightarrow> (Inl (KeyError name_column), h1)
         | Some names \<Rightarrow>
             (let clean_names = map (clean_name E) names;
                  transformed_names = clean_names;
                  padded_names = map pad_name transformed_names;
                  encoded_names = map encode_name padded_names
              in case set_column clean_col (map PyStr clean_names) (h1 ! df_copy) of
                   Inl e \<Rightarrow> (Inl e, h1)
                 | Inr f1 \<Rightarrow>
                     (case set_column transform_col (map PyList encoded_names) f1 of
                        Inl e \<Rightarrow> (Inl e, h1[df_copy := f1])
                      | Inr f2 \<Rightarrow> (Inr df_copy, h1[df_copy := f2]))))"

definition predict :: "ext \<Rightarrow> heap \<Rightarrow> nat \<Rightarrow> (error + nat) \<times> heap" where
  "predict E h df =
     (case map_of (h ! df) transform_col of
        None \<Rightarrow> (Inl (KeyError transform_col), h)
      | Some input_data \<Rightarrow>
          (case model_predict E input_data of
             None \<Rightarrow> (Inl ClassifierError, h)
           | Some predictions \<Rightarrow>
               (let (df_result, h1) = copy_frame h df
                in case set_column predicted_col
                          (map PyStr (gender_labels predictions)) (h1 ! df_result) of
                     Inl e \<Rightarrow> (Inl e, h1)
                   | Inr f1 \<Rightarrow>
                       (case set_column probability_col
                               (map PyFloat (gender_probability predictions)) f1 of
                          Inl e \<Rightarrow> (Inl e, h1[df_result := f1])
                        | Inr f2 \<Rightarrow> (Inr df_result, h1[df_result := f2])))))"

definition genderize :: "ext \<Rightarrow> heap \<Rightarrow> nat \<Rightarrow> pystr option \<Rightarrow> (error + nat) \<times> heap" where
  "genderize E h df name_column =
     (case (case name_column of
              None \<Rightarrow> identify_column_name E (columns (h ! df))
            | Some c \<Rightarrow> Inr c) of
        Inl e \<Rightarrow> (Inl e, h)
      | Inr col \<Rightarrow>
          if col \<notin> set (columns (h ! df)) then (Inl (ColumnNotFound col), h)
          else (case preprocess E h df col of
                  (Inl e, h1) \<Rightarrow> (Inl e, h1)
                | (Inr df_processed, h1) \<Rightarrow>
                    (case predict E h1 df_processed of
                       (Inl e, h2) \<Rightarrow> (Inl e, h2)
                     | (Inr df_result, h2) \<Rightarrow>
                         (case drop_columns [clean_col, transform_col] (h2 ! df_result) of
                            Inl e \<Rightarrow> (Inl e, h2)
                          | Inr f \<Rightarrow> (Inr df_result, h2[df_result := f])))))"

section \<open>A concrete instance of the external capabilities\<close>

text \<open>
  A fragment of the real tables, enough to run the model on the names of the test suite:
  \<open>str.lower\<close> on ASCII and Latin-1 letters, and \<open>unidecode\<close> on ASCII (unchanged), on
  the accented Latin-1 vowels of the tests, and on U+5317, which the library's
  documentation transliterates to \<open>"Bei "\<close>. Code points outside the fragment are
  dropped by \<open>unidecode_fragment\<close>. Floats print as integral ones do (\<open>25.0\<close>). The
  classifier is the mock of the test suite: it returns fixed scores.
\<close>

definition lower_fragment :: "pystr \<Rightarrow> pystr" where
  "lower_fragment s =
     map (\<lambda>c. if (65 \<le> c \<and> c \<le> 90) \<or> (192 \<le> c \<and> c \<le> 222 \<and> c \<noteq> 215) then c + 32 else c) s"

definition unidecode_char :: "nat \<Rightarrow> pystr" where
  "unidecode_char c =
     (if c < 128 then [c]
      else if c = 225 then lit ''a''
      else if c = 233 then lit ''e''
      else if c = 237 then lit ''i''
      else if c = 243 then lit ''o''
      else if c = 250 then lit ''u''
      else if c = 241 then lit ''n''
      else if c = 21271 then lit ''Bei ''
      else [])"

definition unidecode_fragment :: "pystr \<Rightarrow> pystr" where
  "unidecode_fragment s = concat (map unidecode_char s)"

definition float_str_fragment :: "real \<Rightarrow> pystr" where
  "float_str_fragment x = str_int \<lfloor>x\<rfloor> @ lit ''.0''"

definition test_ext :: "real list \<Rightarrow> ext" where
  "test_ext scores =
     \<lparr> str_lower = lower_fragment, unidecode = unidecode_fragment,
       float_str = float_str_fragment, model_predict = (\<lambda>batch. Some scores) \<rparr>"

text \<open>The DataFrame of the test suite.\<close>

definition test_df :: frame where
  "test_df =
     [(lit ''name'', [PyStr (lit ''Juan''), PyStr (lit ''Maria''), PyStr (lit ''Carlos'')]),
      (lit ''age'', [PyInt 25, PyInt 30, PyInt 35])]"

section \<open>Properties of the Normalizer/Encoder\<close>

lemma re_sub_empty_is_filter: "re_sub [] s = filter name_char s"
proof (induction "[] :: pystr" s rule: re_sub.induct)
  case 1
  show ?case by simp
next
  case (2 c cs)
  show ?case
  proof (cases "name_char c")
    case True
    with 2 show ?thesis by simp
  next
    case False
    have "filter name_char (dropWhile (\<lambda>d. \<not> name_char d) cs) = filter name_char cs"
      by (induction cs) auto
    with False 2 show ?thesis by simp
  qed
qed

lemma clean_name_chars: "list_all name_char (clean_name E x)"
  by (simp add: clean_name_def re_sub_empty_is_filter list_all_iff)

lemma length_pad_name: "length (pad_name name) = 50"
  by (simp add: pad_name_def name_length_def)

lemma pad_name_chars: "list_all name_char name \<Longrightarrow> list_all name_char (pad_name name)"
  by (auto simp: pad_name_def list_all_iff name_char_def dest!: in_set_takeD)

lemma lower_fragment_canonical: "list_all name_char s \<Longrightarrow> lower_fragment s = s"
  by (induction s) (auto simp: lower_fragment_def name_char_def)

lemma unidecode_fragment_canonical: "list_all name_char s \<Longrightarrow> unidecode_fragment s = s"
  by (induction s) (auto simp: unidecode_fragment_def unidecode_char_def name_char_def)

lemma encode_name_range:
  "list_all name_char name \<Longrightarrow> \<forall>e \<in> set (encode_name name). 0 \<le> e \<and> e \<le> 26"
  by (auto simp: encode_name_def list_all_iff name_char_def)

text \<open>
  C2 (as amended). The canonical name is the string form of the cell, lowercased first,
  then transliterated, then filtered to \<open>[a-z0-9 ]\<close>: the run-wise regular-expression
  substitution keeps exactly the characters of the class, in their order.
\<close>

theorem clean_name_steps:
  "clean_name E (PyStr s) = filter name_char (unidecode E (str_lower E s))
   \<and> subseq (clean_name E (PyStr s)) (unidecode E (str_lower E s))"
  by (simp add: clean_name_def re_sub_empty_is_filter)

text \<open>
  C2 (as stated) fails: on the one-character name U+5317 the transliteration yields
  \<open>"Bei "\<close>; the code lowercases before transliterating, so the capital B is filtered
  out, while transliterating first and lowercasing afterwards would keep it.
\<close>

theorem clean_name_order_counterexample:
  "clean_name (test_ext []) (PyStr [21271]) = lit ''ei ''
   \<and> canonical_spec (test_ext []) [21271] = lit ''bei ''
   \<and> clean_name (test_ext []) (PyStr [21271]) \<noteq> canonical_spec (test_ext []) [21271]"
  by (simp add: clean_name_def canonical_spec_def re_sub_empty_is_filter test_ext_def
      lower_fragment_def unidecode_fragment_def unidecode_char_def lit_def name_char_def)

section \<open>Properties of the Decision Pipeline\<close>


subsection \<open>Column assignment and the three stages\<close>

lemma assign_fresh: "name \<notin> set (columns f) \<Longrightarrow> assign name vals f = f @ [(name, vals)]"
  by (induction f) (auto simp: columns_def)

lemma map_of_assign: "map_of (assign name vals f) = (map_of f)(name \<mapsto> vals)"
  by (induction f) (auto simp: fun_eq_iff)

lemma columns_assign:
  "columns (assign name vals f) = (if name \<in> set (columns f) then columns f else columns f @ [name])"
  by (induction f) (force simp: columns_def)+

lemma assign_not_Nil: "assign name vals f \<noteq> []"
  by (cases f) (auto split: if_splits)

lemma nrows_assign:
  "f \<noteq> [] \<Longrightarrow> length vals = nrows f \<Longrightarrow> nrows (assign name vals f) = nrows f"
  by (cases f) (auto simp: nrows_def)

lemma nrows_assign_Nil: "nrows (assign name vals []) = length vals"
  by (simp add: nrows_def)

lemma set_column_Inr:
  "set_column name vals f = Inr g \<longleftrightarrow> (f = [] \<or> length vals = nrows f) \<and> g = assign name vals f"
  by (auto simp: set_column_def)

lemma preprocess_success:
  assumes "df < length h" and "preprocess E h df col = (Inr r, h')"
  shows "\<exists>names. map_of (h ! df) col = Some names \<and> length names = nrows (h ! df) \<and> r = length h
     \<and> h' = h @ [assign transform_col (map (\<lambda>x. PyList (encode_cell E x)) names)
                   (assign clean_col (map (\<lambda>x. PyStr (clean_name E x)) names) (h ! df))]"
  using assms
  by (auto simp: preprocess_def copy_frame_def nth_append set_column_Inr encode_cell_def comp_def
      split: option.splits sum.splits)


lemma predict_success:
  assumes "df < length h" and "predict E h df = (Inr r, h')"
  shows "\<exists>input scores. map_of (h ! df) transform_col = Some input
     \<and> model_predict E input = Some scores \<and> length scores = nrows (h ! df) \<and> r = length h
     \<and> h' = h @ [assign probability_col (map PyFloat (gender_probability scores))
                   (assign predicted_col (map PyStr (gender_labels scores)) (h ! df))]"
  using assms
  by (auto simp: predict_def copy_frame_def nth_append set_column_Inr gender_labels_def
      split: option.splits sum.splits)

lemma drop_columns_Inr:
  "set labels \<subseteq> set (columns f) \<Longrightarrow>
   drop_columns labels f = Inr (filter (\<lambda>(k, vs). k \<notin> set labels) f)"
  by (simp add: drop_columns_def filter_empty_conv subset_iff split: list.splits)

lemma scratch_columns_present:
  "set [clean_col, transform_col]
     \<subseteq> set (columns (assign probability_col ps (assign predicted_col ls
          (assign transform_col ts (assign clean_col cs f)))))"
  by (simp add: columns_assign)

lemma genderize_success:
  assumes "df < length h" and "genderize E h df sel = (Inr r, h')"
  shows "\<exists>col names scores.
      (case sel of None \<Rightarrow> identify_column_name E (columns (h ! df)) = Inr col | Some c \<Rightarrow> col = c)
    \<and> map_of (h ! df) col = Some names \<and> length names = nrows (h ! df)
    \<and> length scores = nrows (h ! df)
    \<and> model_predict E (map (\<lambda>x. PyList (encode_cell E x)) names) = Some scores
    \<and> r = Suc (length h)
    \<and> take (length h) h' = h
    \<and> h' ! r = filter (\<lambda>(k, vs). k \<notin> set [clean_col, transform_col])
         (assign probability_col (map PyFloat (gender_probability scores))
           (assign predicted_col (map PyStr (gender_labels scores))
             (assign transform_col (map (\<lambda>x. PyList (encode_cell E x)) names)
               (assign clean_col (map (\<lambda>x. PyStr (clean_name E x)) names) (h ! df)))))"
proof -
  from assms(2) obtain col r1 h1 r2 h2 f where
    sel: "case sel of None \<Rightarrow> identify_column_name E (columns (h ! df)) = Inr col | Some c \<Rightarrow> col = c"
    and pre: "preprocess E h df col = (Inr r1, h1)"
    and pred: "predict E h1 r1 = (Inr r2, h2)"
    and drop: "drop_columns [clean_col, transform_col] (h2 ! r2) = Inr f"
    and res: "r = r2" "h' = h2[r2 := f]"
    by (auto simp: genderize_def split: option.splits sum.splits if_splits prod.splits)
  from preprocess_success [OF assms(1) pre] obtain names where
    names: "map_of (h ! df) col = Some names" "length names = nrows (h ! df)"
    and r1: "r1 = length h"
    and h1: "h1 = h @ [assign transform_col (map (\<lambda>x. PyList (encode_cell E x)) names)
                   (assign clean_col (map (\<lambda>x. PyStr (clean_name E x)) names) (h ! df))]"
    by blast
  have r1_lt: "r1 < length h1" by (simp add: r1 h1)
  have ne: "h ! df \<noteq> []" using names(1) by auto
  from predict_success [OF r1_lt pred] obtain input scores where
    input: "map_of (h1 ! r1) transform_col = Some input"
    and scores: "model_predict E input = Some scores" "length scores = nrows (h1 ! r1)"
    and r2: "r2 = length h1"
    and h2: "h2 = h1 @ [assign probability_col (map PyFloat (gender_probability scores))
                   (assign predicted_col (map PyStr (gender_labels scores)) (h1 ! r1))]"
    by blast
  have f1: "h1 ! r1 = assign transform_col (map (\<lambda>x. PyList (encode_cell E x)) names)
                   (assign clean_col (map (\<lambda>x. PyStr (clean_name E x)) names) (h ! df))"
    by (simp add: r1 h1)
  have input_eq: "input = map (\<lambda>x. PyList (encode_cell E x)) names"
    using input by (simp add: f1 map_of_assign)
  have rows: "nrows (h1 ! r1) = nrows (h ! df)"
    using ne names(2) by (simp add: f1 nrows_assign assign_not_Nil)
  have f_eq: "f = filter (\<lambda>(k, vs). k \<notin> set [clean_col, transform_col]) (h2 ! r2)"
    using drop drop_columns_Inr [OF scratch_columns_present]
    by (simp add: r2 h2 f1)
  have "h' ! r = f" by (simp add: res r2 h2)
  moreover have "h2 ! r2 = assign probability_col (map PyFloat (gender_probability scores))
                   (assign predicted_col (map PyStr (gender_labels scores)) (h1 ! r1))"
    by (simp add: r2 h2)
  moreover have "take (length h) h' = h" by (simp add: res r2 h2 h1)
  moreover have "r = Suc (length h)" by (simp add: res r2 h1)
  ultimately show ?thesis
    using sel names scores rows input_eq f_eq f1 by (intro exI [of _ col] exI [of _ names] exI [of _ scores]) simp
qed

subsection \<open>The result of \<open>genderize\<close>\<close>

lemma col_names_distinct: "distinct [clean_col, transform_col, predicted_col, probability_col]"
  by (simp add: clean_col_def transform_col_def predicted_col_def probability_col_def lit_def)

text \<open>
  C6 (as amended). When the input has no column named \<open>clean_name_nlp\<close>,
  \<open>transform_name_nlp\<close>, \<open>gender_predicted\<close> or \<open>gender_probability\<close>, a successful
  \<open>genderize\<close> returns a new DataFrame that is the input, columns and rows in their
  order and every value unchanged, followed by exactly the two fields
  \<open>gender_predicted\<close> and \<open>gender_probability\<close>, one value per row; the scratch
  columns are not in it, and no object that existed before the call, the input among
  them, is changed.
\<close>

theorem genderize_appends_two_fields:
  assumes "df < length h"
    and "set (columns (h ! df)) \<inter> {clean_col, transform_col, predicted_col, probability_col} = {}"
    and "genderize E h df sel = (Inr r, h')"
  shows "\<exists>scores. length scores = nrows (h ! df)
     \<and> h' ! r = h ! df @ [(predicted_col, map PyStr (gender_labels scores)),
                          (probability_col, map PyFloat (gender_probability scores))]
     \<and> clean_col \<notin> set (columns (h' ! r)) \<and> transform_col \<notin> set (columns (h' ! r))
     \<and> r \<noteq> df \<and> h' ! df = h ! df \<and> take (length h) h' = h"
proof -
  from genderize_success [OF assms(1,3)] obtain col names scores where
    len: "length scores = nrows (h ! df)"
    and r: "r = Suc (length h)"
    and old: "take (length h) h' = h"
    and out: "h' ! r = filter (\<lambda>(k, vs). k \<notin> set [clean_col, transform_col])
         (assign probability_col (map PyFloat (gender_probability scores))
           (assign predicted_col (map PyStr (gender_labels scores))
             (assign transform_col (map (\<lambda>x. PyList (encode_cell E x)) names)
               (assign clean_col (map (\<lambda>x. PyStr (clean_name E x)) names) (h ! df)))))"
    by blast
  let ?f = "h ! df"
  have fresh: "clean_col \<notin> set (columns ?f)" "transform_col \<notin> set (columns ?f)"
    "predicted_col \<notin> set (columns ?f)" "probability_col \<notin> set (columns ?f)"
    using assms(2) by auto
  have keep: "filter (\<lambda>(k, vs). k \<notin> set [clean_col, transform_col]) ?f = ?f"
    using fresh(1,2) by (force simp: filter_id_conv columns_def)
  have neq: "clean_col \<noteq> transform_col" "clean_col \<noteq> predicted_col"
    "clean_col \<noteq> probability_col" "transform_col \<noteq> predicted_col"
    "transform_col \<noteq> probability_col" "predicted_col \<noteq> probability_col"
    using col_names_distinct by simp_all
  have s1: "assign clean_col cs ?f = ?f @ [(clean_col, cs)]" for cs
    using fresh(1) by (rule assign_fresh)
  have s2: "assign transform_col ts (?f @ [(clean_col, cs)])
      = ?f @ [(clean_col, cs), (transform_col, ts)]" for cs ts
    using fresh(2) neq by (subst assign_fresh) (auto simp: columns_def)
  have s3: "assign predicted_col ls (?f @ [(clean_col, cs), (transform_col, ts)])
      = ?f @ [(clean_col, cs), (transform_col, ts), (predicted_col, ls)]" for cs ts ls
    using fresh(3) neq by (subst assign_fresh) (auto simp: columns_def)
  have s4: "assign probability_col ps
        (?f @ [(clean_col, cs), (transform_col, ts), (predicted_col, ls)])
      = ?f @ [(clean_col, cs), (transform_col, ts), (predicted_col, ls), (probability_col, ps)]"
    for cs ts ls ps
    using fresh(4) neq by (subst assign_fresh) (auto simp: columns_def)
  have out': "h' ! r = ?f @ [(predicted_col, map PyStr (gender_labels scores)),
                          (probability_col, map PyFloat (gender_probability scores))]"
    unfolding out s1 s2 s3 s4 using keep neq by simp
  have "h' ! df = take (length h) h' ! df" using assms(1) by simp
  then have same: "h' ! df = h ! df" by (simp add: old)
  have "clean_col \<notin> set (columns (h' ! r))" "transform_col \<notin> set (columns (h' ! r))"
    using fresh col_names_distinct by (auto simp: out' columns_def)
  with len out' same old r assms(1) show ?thesis by auto
qed

theorem genderize_appends_two_fields_witness:
  "set (columns test_df) \<inter> {clean_col, transform_col, predicted_col, probability_col} = {}
   \<and> fst (genderize (test_ext [0.7, 0.3, 0.8]) [test_df] 0 None) = Inr 2
   \<and> (\<exists>scores. length scores = 3
        \<and> snd (genderize (test_ext [0.7, 0.3, 0.8]) [test_df] 0 None) ! 2 =
            test_df @ [(predicted_col, map PyStr (gender_labels scores)),
                       (probability_col, map PyFloat (gender_probability scores))])
   \<and> snd (genderize (test_ext [0.7, 0.3, 0.8]) [test_df] 0 None) ! 0 = test_df"
proof -
  let ?E = "test_ext [0.7, 0.3, 0.8]"
  have a: "set (columns test_df) \<inter> {clean_col, transform_col, predicted_col, probability_col} = {}"
    by code_simp
  have b: "fst (genderize ?E [test_df] 0 None) = Inr 2"
    by code_simp
  then have c: "genderize ?E [test_df] 0 None = (Inr 2, snd (genderize ?E [test_df] 0 None))"
    by (metis prod.collapse)
  have d: "nrows test_df = 3" by code_simp
  from genderize_appends_two_fields [of 0 "[test_df]" ?E None 2, OF _ _ c] a d
  show ?thesis using b by auto
qed

text \<open>
  C6 (as stated) fails for an input that already has a column of one of these names:
  below, the input's own \<open>clean_name_nlp\<close> column is dropped from the output, its
  \<open>gender_predicted\<close> value \<open>"X"\<close> is overwritten by the prediction, and only one field
  is appended.
\<close>

theorem genderize_overwrites_counterexample:
  "fst (genderize (test_ext [0.7])
          [[(lit ''name'', [PyStr (lit ''Juan'')]),
            (lit ''clean_name_nlp'', [PyInt 7]),
            (lit ''gender_predicted'', [PyStr (lit ''X'')])]] 0 None) = Inr 2
   \<and> snd (genderize (test_ext [0.7])
          [[(lit ''name'', [PyStr (lit ''Juan'')]),
            (lit ''clean_name_nlp'', [PyInt 7]),
            (lit ''gender_predicted'', [PyStr (lit ''X'')])]] 0 None) ! 2 =
       [(lit ''name'', [PyStr (lit ''Juan'')]),
        (lit ''gender_predicted'', [PyStr (lit ''M'')]),
        (lit ''gender_probability'', [PyFloat 0.7])]"
  by code_simp

text \<open>
  C8. A column selector given explicitly that names no column of the input makes
  \<open>genderize\<close> fail with the column-not-found error at once: the heap is as it was,
  so nothing was copied, encoded or classified, and no DataFrame is returned.
\<close>

theorem genderize_column_not_found:
  "c \<notin> set (columns (h ! df)) \<Longrightarrow> genderize E h df (Some c) = (Inl (ColumnNotFound c), h)"
  by (simp add: genderize_def)

theorem genderize_column_not_found_witness:
  "lit ''nonexistent_column'' \<notin> set (columns test_df)
   \<and> genderize (test_ext [0.7, 0.3, 0.8]) [test_df] 0 (Some (lit ''nonexistent_column''))
       = (Inl (ColumnNotFound (lit ''nonexistent_column'')), [test_df])"
proof -
  have a: "lit ''nonexistent_column'' \<notin> set (columns ([test_df] ! 0))" by code_simp
  from genderize_column_not_found [OF a] a show ?thesis by simp
qed


subsection \<open>Column auto-detection\<close>








subsection \<open>Cells of any type, and the decision rule\<close>



text \<open>
  C1. \<open>_predict\<close> writes, for the scores the classifier returns, the label \<open>"M"\<close>
  where the score exceeds 0.5 and \<open>"F"\<close> otherwise, and the rounded confidence, the
  confidence being the score where it exceeds 0.5 and one minus the score otherwise; a
  score of exactly 0.5 gives \<open>"F"\<close> and confidence 0.5, before and after rounding.
\<close>

theorem predict_decision_rule:
  assumes "df < length h" and "predict E h df = (Inr r, h')"
  shows "\<exists>input scores. map_of (h ! df) transform_col = Some input
     \<and> model_predict E input = Some scores
     \<and> map_of (h' ! r) predicted_col = Some (map PyStr (gender_labels scores))
     \<and> map_of (h' ! r) probability_col = Some (map (\<lambda>p. PyFloat (py_round p 2)) (gender_probs scores))
     \<and> (\<forall>i < length scores.
           gender_labels scores ! i = (if scores ! i > 0.5 then lit ''M'' else lit ''F'')
         \<and> gender_probs scores ! i = (if scores ! i > 0.5 then scores ! i else 1 - scores ! i)
         \<and> (scores ! i = 0.5 \<longrightarrow> gender_labels scores ! i = lit ''F''
              \<and> gender_probs scores ! i = 0.5 \<and> py_round (gender_probs scores ! i) 2 = 0.5))"
proof -
  from predict_success [OF assms] obtain input scores where
    input: "map_of (h ! df) transform_col = Some input"
    and scores: "model_predict E input = Some scores"
    and r: "r = length h"
    and h': "h' = h @ [assign probability_col (map PyFloat (gender_probability scores))
                   (assign predicted_col (map PyStr (gender_labels scores)) (h ! df))]"
    by blast
  have neq: "predicted_col \<noteq> probability_col"
    using col_names_distinct by simp
  have half: "py_round (1 / 2) 2 = 1 / 2"
    by (simp add: py_round_def round_half_even_def)
  have cols: "map_of (h' ! r) predicted_col = Some (map PyStr (gender_labels scores))"
    "map_of (h' ! r) probability_col = Some (map (\<lambda>p. PyFloat (py_round p 2)) (gender_probs scores))"
    using neq by (simp_all add: r h' map_of_assign gender_probability_def comp_def)
  have rule: "\<forall>i < length scores.
           gender_labels scores ! i = (if scores ! i > 0.5 then lit ''M'' else lit ''F'')
         \<and> gender_probs scores ! i = (if scores ! i > 0.5 then scores ! i else 1 - scores ! i)
         \<and> (scores ! i = 0.5 \<longrightarrow> gender_labels scores ! i = lit ''F''
              \<and> gender_probs scores ! i = 0.5 \<and> py_round (gender_probs scores ! i) 2 = 0.5)"
  proof (intro allI impI)
    fix i assume i: "i < length scores"
    have tie: "gender_probs scores ! i = 1 / 2" if "scores ! i = 0.5"
      using that i by (simp add: gender_probs_def)
    have "py_round (gender_probs scores ! i) 2 = 0.5" if "scores ! i = 0.5"
      unfolding tie [OF that] using half by simp
    with i tie
    show "gender_labels scores ! i = (if scores ! i > 0.5 then lit ''M'' else lit ''F'')
         \<and> gender_probs scores ! i = (if scores ! i > 0.5 then scores ! i else 1 - scores ! i)
         \<and> (scores ! i = 0.5 \<longrightarrow> gender_labels scores ! i = lit ''F''
              \<and> gender_probs scores ! i = 0.5 \<and> py_round (gender_probs scores ! i) 2 = 0.5)"
      by (simp add: gender_labels_def gender_probs_def)
  qed
  from input scores cols rule show ?thesis by blast
qed

theorem predict_decision_rule_witness:
  "fst (predict (test_ext [0.7, 0.3, 0.5])
         [[(lit ''name'', [PyStr (lit ''Juan''), PyStr (lit ''Maria''), PyStr (lit ''Carlos'')]),
           (transform_col, [PyList (1 # 2 # 3 # replicate 47 0), PyList (4 # 5 # 6 # replicate 47 0),
                            PyList (7 # 8 # 9 # replicate 47 0)])]] 0) = Inr 1
   \<and> map_of (snd (predict (test_ext [0.7, 0.3, 0.5])
         [[(lit ''name'', [PyStr (lit ''Juan''), PyStr (lit ''Maria''), PyStr (lit ''Carlos'')]),
           (transform_col, [PyList (1 # 2 # 3 # replicate 47 0), PyList (4 # 5 # 6 # replicate 47 0),
                            PyList (7 # 8 # 9 # replicate 47 0)])]] 0) ! 1) predicted_col
      = Some [PyStr (lit ''M''), PyStr (lit ''F''), PyStr (lit ''F'')]
   \<and> map_of (snd (predict (test_ext [0.7, 0.3, 0.5])
         [[(lit ''name'', [PyStr (lit ''Juan''), PyStr (lit ''Maria''), PyStr (lit ''Carlos'')]),
           (transform_col, [PyList (1 # 2 # 3 # replicate 47 0), PyList (4 # 5 # 6 # replicate 47 0),
                            PyList (7 # 8 # 9 # replicate 47 0)])]] 0) ! 1) probability_col
      = Some [PyFloat 0.7, PyFloat 0.7, PyFloat 0.5]"
proof -
  let ?E = "test_ext [0.7, 0.3, 0.5]"
  let ?h = "[[(lit ''name'', [PyStr (lit ''Juan''), PyStr (lit ''Maria''), PyStr (lit ''Carlos'')]),
           (transform_col, [PyList (1 # 2 # 3 # replicate 47 0), PyList (4 # 5 # 6 # replicate 47 0),
                            PyList (7 # 8 # 9 # replicate 47 0)])]]"
  have a: "(0::nat) < length ?h" by simp
  have b: "fst (predict ?E ?h 0) = Inr 1"
    by (simp add: predict_def test_ext_def copy_frame_def set_column_def nrows_def
        gender_labels_def gender_probability_def gender_probs_def)
  then have c: "predict ?E ?h 0 = (Inr 1, snd (predict ?E ?h 0))"
    by (metis prod.collapse)
  have d: "map PyStr (gender_labels [0.7, 0.3, 0.5]) = [PyStr (lit ''M''), PyStr (lit ''F''), PyStr (lit ''F'')]"
    by (simp add: gender_labels_def)
  have e: "map (\<lambda>p. PyFloat (py_round p 2)) (gender_probs [0.7, 0.3, 0.5])
      = [PyFloat 0.7, PyFloat 0.7, PyFloat 0.5]"
    by (simp add: gender_probs_def py_round_def round_half_even_def)
  from predict_decision_rule [OF a c] obtain input scores where
    "model_predict ?E input = Some scores"
    and "map_of (snd (predict ?E ?h 0) ! 1) predicted_col = Some (map PyStr (gender_labels scores))"
    and "map_of (snd (predict ?E ?h 0) ! 1) probability_col
           = Some (map (\<lambda>p. PyFloat (py_round p 2)) (gender_probs scores))"
    by blast
  moreover from this(1) have "scores = [0.7, 0.3, 0.5]"
    by (simp add: test_ext_def)
  ultimately show ?thesis using b d e by simp
qed


subsection \<open>Rounding the confidence\<close>










section \<open>The Encoded Vector\<close>



text \<open>
  C4. Each slot of the Encoded Vector is \<open>max(0.0, codepoint(c) - 96.0)\<close> of the
  character \<open>c\<close> in that slot of the padded canonical name, a character of
  \<open>[a-z0-9 ]\<close>: the letters \<open>a\<close> to \<open>z\<close> give 1 to 26, the digits and the space give 0,
  so every slot lies in \<open>[0, 26]\<close>.
\<close>

theorem encoded_vector_values:
  "(\<forall>i < 50. encode_cell E x ! i = max 0 (real (pad_name (clean_name E x) ! i) - 96)
        \<and> name_char (pad_name (clean_name E x) ! i)
        \<and> 0 \<le> encode_cell E x ! i \<and> encode_cell E x ! i \<le> 26)
   \<and> (\<forall>c. 97 \<le> c \<and> c \<le> 122 \<longrightarrow> encode_name [c] = [real (c - 96)] \<and> 1 \<le> c - 96 \<and> c - 96 \<le> 26)
   \<and> (\<forall>c. (48 \<le> c \<and> c \<le> 57) \<or> c = 32 \<longrightarrow> encode_name [c] = [0])
   \<and> encode_name (lit ''az09 '') = [1, 26, 0, 0, 0]"
proof -
  let ?p = "pad_name (clean_name E x)"
  have chars: "list_all name_char ?p"
    by (rule pad_name_chars) (rule clean_name_chars)
  have slots: "\<forall>i < 50. encode_cell E x ! i = max 0 (real (?p ! i) - 96)
        \<and> name_char (?p ! i) \<and> 0 \<le> encode_cell E x ! i \<and> encode_cell E x ! i \<le> 26"
  proof (intro allI impI)
    fix i :: nat assume "i < 50"
    then have i: "i < length ?p" by (simp add: length_pad_name)
    with chars have nc: "name_char (?p ! i)" by (simp add: list_all_length)
    have enc: "encode_cell E x ! i = max 0 (real (?p ! i) - 96)"
      using i by (simp add: encode_cell_def encode_name_def)
    from nc have "0 \<le> max 0 (real (?p ! i) - 96)" "max 0 (real (?p ! i) - 96) \<le> 26"
      by (auto simp: name_char_def)
    with nc enc show "encode_cell E x ! i = max 0 (real (?p ! i) - 96)
        \<and> name_char (?p ! i) \<and> 0 \<le> encode_cell E x ! i \<and> encode_cell E x ! i \<le> 26"
      by simp
  qed
  have letters: "\<forall>c. 97 \<le> c \<and> c \<le> 122 \<longrightarrow> encode_name [c] = [real (c - 96)] \<and> 1 \<le> c - 96 \<and> c - 96 \<le> 26"
    by (auto simp: encode_name_def)
  have others: "\<forall>c. (48 \<le> c \<and> c \<le> 57) \<or> c = 32 \<longrightarrow> encode_name [c] = [0]"
    by (auto simp: encode_name_def)
  have ex: "encode_name (lit ''az09 '') = [1, 26, 0, 0, 0]"
    by (simp add: encode_name_def lit_def)
  from slots letters others ex show ?thesis by blast
qed

theorem encoded_vector_values_witness:
  "encode_cell (test_ext []) (PyStr [77, 97, 114, 237, 97, 32, 74, 111, 115, 233]) ! 0 = 13
   \<and> name_char (pad_name (clean_name (test_ext []) (PyStr [77, 97, 114, 237, 97, 32, 74, 111, 115, 233])) ! 0)
   \<and> encode_name [122] = [26]
   \<and> encode_name [57] = [0]"
proof -
  let ?E = "test_ext []"
  let ?x = "PyStr [77, 97, 114, 237, 97, 32, 74, 111, 115, 233]"
  have p: "pad_name (clean_name ?E ?x) ! 0 = 109" by code_simp
  have slot: "encode_cell ?E ?x ! 0 = max 0 (real (pad_name (clean_name ?E ?x) ! 0) - 96)
        \<and> name_char (pad_name (clean_name ?E ?x) ! 0)
        \<and> 0 \<le> encode_cell ?E ?x ! 0 \<and> encode_cell ?E ?x ! 0 \<le> 26"
    by (rule encoded_vector_values [THEN conjunct1, rule_format]) simp
  have z: "encode_name [122] = [real (122 - 96)] \<and> 1 \<le> (122::nat) - 96 \<and> (122::nat) - 96 \<le> 26"
    by (rule encoded_vector_values [THEN conjunct2, THEN conjunct1, rule_format]) simp
  have nine: "encode_name [57] = [0]"
    by (rule encoded_vector_values [THEN conjunct2, THEN conjunct2, THEN conjunct1, rule_format]) simp
  from slot z nine show ?thesis by (simp add: p)
qed

text \<open>
  C9. Normalization is idempotent: the canonical name of a canonical name is itself,
  given that lowercasing and transliteration leave strings over \<open>[a-z0-9 ]\<close>
  unchanged, as Python's \<open>str.lower\<close> and \<open>unidecode\<close> do on ASCII.
\<close>

theorem clean_name_idempotent:
  assumes "\<And>s. list_all name_char s \<Longrightarrow> str_lower E s = s"
    and "\<And>s. list_all name_char s \<Longrightarrow> unidecode E s = s"
  shows "clean_name E (PyStr (clean_name E x)) = clean_name E x"
proof -
  let ?n = "clean_name E x"
  have canon: "list_all name_char ?n" by (rule clean_name_chars)
  then have "unidecode E (str_lower E ?n) = ?n"
    by (simp add: assms)
  moreover from canon have "filter name_char ?n = ?n"
    by (simp add: list_all_iff)
  ultimately show ?thesis
    by (simp add: clean_name_def [of E "PyStr ?n"] re_sub_empty_is_filter)
qed

theorem clean_name_idempotent_witness:
  "clean_name (test_ext []) (PyStr [77, 97, 114, 237, 97, 32, 74, 111, 115, 233]) = lit ''maria jose''
   \<and> clean_name (test_ext []) (PyStr (lit ''maria jose'')) = lit ''maria jose''"
proof -
  let ?E = "test_ext []"
  let ?x = "PyStr [77, 97, 114, 237, 97, 32, 74, 111, 115, 233]"
  have l: "\<And>s. list_all name_char s \<Longrightarrow> str_lower ?E s = s"
    by (simp add: test_ext_def lower_fragment_canonical)
  have u: "\<And>s. list_all name_char s \<Longrightarrow> unidecode ?E s = s"
    by (simp add: test_ext_def unidecode_fragment_canonical)
  have c: "clean_name ?E ?x = lit ''maria jose''"
    by (simp add: clean_name_def re_sub_empty_is_filter test_ext_def
      lower_fragment_def unidecode_fragment_def unidecode_char_def lit_def name_char_def)
  from clean_name_idempotent [of ?E ?x, OF l u] c show ?thesis by simp
qed

end
